theory Spec2Isabelle
  imports Complex_Main "HOL-Library.Multiset"
begin

section \<open>The load generator \<^verbatim>\<open>req.py\<close>\<close>

text \<open>
  The program has three functions: \<^verbatim>\<open>send_request\<close> (one GET, one \<^verbatim>\<open>print\<close>),
  \<^verbatim>\<open>worker\<close> (a loop of request-then-sleep cycles) and \<^verbatim>\<open>main\<close> (the interval, one
  thread per request, the joins). Everything outside the file is a parameter or an event:
  \<^verbatim>\<open>requests.get(url)\<close> is answered by an oracle, which says for the j-th GET of a thread
  whether it returns a response, raises a \<^verbatim>\<open>RequestException\<close>, raises an exception of
  another class, or never returns (the call has no timeout). A Python \<^verbatim>\<open>str\<close> is a
  \<open>string\<close>, one element per character, and a Python \<^verbatim>\<open>int\<close> is an \<open>int\<close>.

  The functions are embedded twice. The first embedding takes arithmetic and the library
  at their ideal: a \<^verbatim>\<open>float\<close> is a real number, \<^verbatim>\<open>time.sleep\<close> accepts every length that is
  not negative, and \<^verbatim>\<open>print\<close> writes every text. It serves the claims about what is
  requested and what is printed. The second embedding (the constants named \<open>_py\<close>) has
  Python's floats, with their rounding, their signed zero, their infinities and NaN, and
  takes \<^verbatim>\<open>print\<close> and \<^verbatim>\<open>time.sleep\<close> from the environment, where they can raise. It
  serves the claims about the interval, the delay and the exceptions.
\<close>

subsection \<open>Data\<close>

text \<open>What \<^verbatim>\<open>requests.get(url)\<close> does: \<open>Response status_code text\<close>, an exception
  that is an instance of \<^verbatim>\<open>requests.exceptions.RequestException\<close> (with its \<^verbatim>\<open>str\<close>),
  an exception of any other class (with its \<^verbatim>\<open>str\<close>), or a call that blocks for ever.\<close>

datatype get_result =
    Response int string
  | RequestException string
  | OtherException string
  | Hangs

text \<open>The exceptions that leave a function of the file: the division by zero of
  \<^verbatim>\<open>main\<close>, the \<^verbatim>\<open>ValueError\<close> of \<^verbatim>\<open>time.sleep\<close> on a negative length, and an
  exception of \<^verbatim>\<open>requests.get\<close> that \<^verbatim>\<open>send_request\<close> does not catch.\<close>

datatype exn = ZeroDivisionError | ValueError | Uncaught string

text \<open>The calls a thread makes to the outside, in order.\<close>

datatype event = Get string | Print string | Sleep real

text \<open>A call returns (\<open>Some (Inr ())\<close>), raises (\<open>Some (Inl e)\<close>) or never returns
  (\<open>None\<close>).\<close>

type_synonym outcome = "(exn + unit) option"

text \<open>A thread: how many GETs it has made, and its events so far.\<close>

record thread =
  calls :: nat
  events :: "event list"

definition new_thread :: thread where
  "new_thread = \<lparr>calls = 0, events = []\<rparr>"

text \<open>The oracle: the result of the j-th GET of a thread against a url.\<close>

type_synonym net = "string \<Rightarrow> nat \<Rightarrow> get_result"

subsection \<open>Formatting an \<^verbatim>\<open>int\<close> as the f-string does\<close>

definition digit_char :: "nat \<Rightarrow> char" where
  "digit_char d = char_of (48 + d)"

function str_nat :: "nat \<Rightarrow> string" where
  "str_nat n = (if n < 10 then [digit_char n] else str_nat (n div 10) @ [digit_char (n mod 10)])"
  by pat_completeness auto
termination
  by (relation "measure id") auto

declare str_nat.simps [simp del]

definition str_int :: "int \<Rightarrow> string" where
  "str_int i = (if i < 0 then CHR ''-'' # str_nat (nat (- i)) else str_nat (nat i))"

subsection \<open>The library calls\<close>


text \<open>\<^verbatim>\<open>print(txt)\<close>: the text goes to standard output, followed by a newline.\<close>

definition py_print :: "string \<Rightarrow> thread \<Rightarrow> outcome \<times> thread" where
  "py_print txt s = (Some (Inr ()), s\<lparr>events := events s @ [Print txt]\<rparr>)"

text \<open>\<^verbatim>\<open>time.sleep(secs)\<close> raises \<^verbatim>\<open>ValueError\<close> on a negative length. (Here every
  other length is accepted; \<open>time_sleep_py\<close> has the other errors of the library.)\<close>

definition time_sleep :: "real \<Rightarrow> thread \<Rightarrow> outcome \<times> thread" where
  "time_sleep secs s =
     (if secs < 0 then (Some (Inl ValueError), s)
      else (Some (Inr ()), s\<lparr>events := events s @ [Sleep secs]\<rparr>))"

subsection \<open>\<^verbatim>\<open>send_request\<close>\<close>

text \<open>
  \<^verbatim>\<open>
  def send_request(url):
      try:
          response = requests.get(url)
          print(f"Status Code: {response.status_code}, Content: {response.text[:50]}")
      except requests.exceptions.RequestException as e:
          print(f"Request failed: {e}")
  \<close>
\<close>

definition success_text :: "int \<Rightarrow> string \<Rightarrow> string" where
  "success_text status_code text =
     ''Status Code: '' @ str_int status_code @ '', Content: '' @ take 50 text"

definition failure_text :: "string \<Rightarrow> string" where
  "failure_text e = ''Request failed: '' @ e"

definition send_request :: "net \<Rightarrow> string \<Rightarrow> thread \<Rightarrow> outcome \<times> thread" where
  "send_request net url s =
     (let s1 = s\<lparr>calls := Suc (calls s), events := events s @ [Get url]\<rparr> in
      case net url (calls s) of
        Response status_code text \<Rightarrow> py_print (success_text status_code text) s1
      | RequestException e \<Rightarrow> py_print (failure_text e) s1
      | OtherException e \<Rightarrow> (Some (Inl (Uncaught e)), s1)
      | Hangs \<Rightarrow> (None, s1))"

subsection \<open>\<^verbatim>\<open>worker\<close>\<close>

text \<open>
  \<^verbatim>\<open>
  def worker(url, interval, num_requests):
      for _ in range(num_requests):
          send_request(url)
          time.sleep(interval)
  \<close>
  The loop runs \<open>nat num_requests\<close> times (\<^verbatim>\<open>range\<close> of a negative number is empty);
  an exception or a call that never returns ends it.
\<close>

fun worker_loop :: "net \<Rightarrow> string \<Rightarrow> real \<Rightarrow> nat \<Rightarrow> thread \<Rightarrow> outcome \<times> thread" where
  "worker_loop net url interval 0 s = (Some (Inr ()), s)"
| "worker_loop net url interval (Suc n) s =
     (case send_request net url s of
        (Some (Inr _), s1) \<Rightarrow>
          (case time_sleep interval s1 of
             (Some (Inr _), s2) \<Rightarrow> worker_loop net url interval n s2
           | (r, s2) \<Rightarrow> (r, s2))
      | (r, s1) \<Rightarrow> (r, s1))"

definition worker :: "net \<Rightarrow> string \<Rightarrow> real \<Rightarrow> int \<Rightarrow> thread \<Rightarrow> outcome \<times> thread" where
  "worker net url interval num_requests s = worker_loop net url interval (nat num_requests) s"

subsection \<open>\<^verbatim>\<open>main\<close>\<close>

text \<open>
  \<^verbatim>\<open>
      interval = total_time / total_requests
      threads = []
      for _ in range(total_requests):
          thread = threading.Thread(target=worker, args=(url, interval, 1))
          threads.append(thread)
          thread.start()
      for thread in threads:
          thread.join()
  \<close>
  The arguments are taken as parsed. \<open>thread_args\<close> is the list of argument tuples the
  first loop gives to its threads; the division by zero is raised before the loop.
  The k-th thread runs \<^verbatim>\<open>worker\<close> on its own oracle \<open>env k\<close> from a new thread state;
  an exception that leaves \<^verbatim>\<open>worker\<close> ends that thread only. The joins have no timeout:
  \<^verbatim>\<open>main\<close> returns when every thread has ended, and never if one does not end.
\<close>

definition thread_args :: "string \<Rightarrow> int \<Rightarrow> real \<Rightarrow> exn + (string \<times> real \<times> int) list" where
  "thread_args url total_requests total_time =
     (if total_requests = 0 then Inl ZeroDivisionError
      else let interval = total_time / real_of_int total_requests
           in Inr (map (\<lambda>_. (url, interval, 1)) [0..<nat total_requests]))"

definition run_thread :: "net \<Rightarrow> string \<times> real \<times> int \<Rightarrow> outcome \<times> thread" where
  "run_thread net args = (case args of (url, interval, num_requests) \<Rightarrow>
     worker net url interval num_requests new_thread)"

definition join_all :: "(outcome \<times> thread) list \<Rightarrow> outcome" where
  "join_all threads = (if list_ex (\<lambda>t. fst t = None) threads then None else Some (Inr ()))"

definition main :: "(nat \<Rightarrow> net) \<Rightarrow> string \<Rightarrow> int \<Rightarrow> real \<Rightarrow> outcome \<times> (outcome \<times> thread) list" where
  "main env url total_requests total_time =
     (case thread_args url total_requests total_time of
        Inl e \<Rightarrow> (Some (Inl e), [])
      | Inr argss \<Rightarrow>
          (let threads = map (\<lambda>(k, args). run_thread (env k) args) (enumerate 0 argss)
           in (join_all threads, threads)))"

subsection \<open>Standard output\<close>

text \<open>The texts a thread has printed, and the urls it has requested, in order.\<close>

fun prints :: "event list \<Rightarrow> string list" where
  "prints [] = []"
| "prints (Print txt # es) = txt # prints es"
| "prints (Get url # es) = prints es"
| "prints (Sleep secs # es) = prints es"






subsection \<open>The two output formats\<close>


definition is_digit :: "char \<Rightarrow> bool" where
  "is_digit c = (48 \<le> (of_char c :: nat) \<and> (of_char c :: nat) \<le> 57)"





text \<open>Reading a decimal numeral back, to say that \<open>str_int\<close> shows the number.\<close>

definition digit_val :: "char \<Rightarrow> nat" where
  "digit_val c = of_char c - 48"

definition nat_of_str :: "string \<Rightarrow> nat" where
  "nat_of_str s = foldl (\<lambda>a c. 10 * a + digit_val c) 0 s"

definition int_of_str :: "string \<Rightarrow> int" where
  "int_of_str s =
     (if s \<noteq> [] \<and> hd s = CHR ''-'' then - int (nat_of_str (tl s)) else int (nat_of_str s))"

subsection \<open>Reading a thread's events\<close>

text \<open>A GET that is answered: a response or a \<^verbatim>\<open>RequestException\<close> (the request
  succeeds or fails; it neither hangs nor raises another exception).\<close>

fun answered :: "get_result \<Rightarrow> bool" where
  "answered (Response status_code text) = True"
| "answered (RequestException e) = True"
| "answered (OtherException e) = False"
| "answered Hangs = False"

text \<open>What \<^verbatim>\<open>send_request\<close> prints for a result of the GET.\<close>

fun reported :: "get_result \<Rightarrow> string list" where
  "reported (Response status_code text) = [success_text status_code text]"
| "reported (RequestException e) = [failure_text e]"
| "reported (OtherException e) = []"
| "reported Hangs = []"

text \<open>
  The run of one thread of \<^verbatim>\<open>main\<close> in closed form, by the result \<open>r\<close> of its GET:
  \<^verbatim>\<open>worker(url, interval, 1)\<close> from a new thread state (lemma \<open>worker_once\<close>).
\<close>

definition unit_run :: "get_result \<Rightarrow> string \<Rightarrow> real \<Rightarrow> outcome \<times> thread" where
  "unit_run r url interval =
     (case r of
        OtherException e \<Rightarrow> (Some (Inl (Uncaught e)), \<lparr>calls = 1, events = [Get url]\<rparr>)
      | Hangs \<Rightarrow> (None, \<lparr>calls = 1, events = [Get url]\<rparr>)
      | _ \<Rightarrow>
         (if interval < 0
          then (Some (Inl ValueError), \<lparr>calls = 1, events = Get url # map Print (reported r)\<rparr>)
          else (Some (Inr ()),
                \<lparr>calls = 1, events = Get url # map Print (reported r) @ [Sleep interval]\<rparr>)))"

subsection \<open>Concrete environments\<close>

text \<open>The scenario of the specification: every GET returns 200 with body \<^verbatim>\<open>hello world\<close>.\<close>

definition always_ok :: "nat \<Rightarrow> net" where
  "always_ok k url j = Response 200 ''hello world''"

text \<open>Every GET is refused.\<close>

definition always_down :: "nat \<Rightarrow> net" where
  "always_down k url j = RequestException ''connection refused''"

text \<open>Thread 0 gets a response, thread 1 a transport error, thread 2 an exception of
  another class, every other thread hangs.\<close>

definition mixed :: "nat \<Rightarrow> net" where
  "mixed k url j =
     (if k = 0 then Response 200 ''hello world''
      else if k = 1 then RequestException ''connection refused''
      else if k = 2 then OtherException ''boom''
      else Hangs)"




text \<open>Every GET raises an exception that is not a \<^verbatim>\<open>RequestException\<close>.\<close>

definition raises_other :: "nat \<Rightarrow> net" where
  "raises_other k url j = OtherException ''boom''"

section \<open>The second embedding\<close>

subsection \<open>Python's floats\<close>

text \<open>
  A Python \<^verbatim>\<open>float\<close> is an IEEE 754 double: a finite value (a rational; \<open>Fin 0\<close> is
  \<^verbatim>\<open>0.0\<close>), the negative zero, an infinity or a NaN. \<open>round_double\<close> rounds a rational to
  the nearest double, ties to the even significand: the significand has 53 bits, the
  smallest exponent is -1022 (below it the spacing stays \<open>2 ^ -1074\<close>), and a magnitude
  that rounds to \<open>2 ^ 1024\<close> or more becomes an infinity.
\<close>

datatype pyfloat = Fin rat | NegZero | PosInf | NegInf | NaN

definition pow2 :: "int \<Rightarrow> rat" where
  "pow2 k = (if 0 \<le> k then 2 ^ nat k else 1 / 2 ^ nat (- k))"

function bit_length :: "int \<Rightarrow> nat" where
  "bit_length n = (if n \<le> 0 then 0 else Suc (bit_length (n div 2)))"
  by pat_completeness auto
termination
  by (relation "measure nat") auto

declare bit_length.simps [simp del]

text \<open>For \<open>q > 0\<close>: the \<open>k\<close> with \<open>2 ^ k \<le> q < 2 ^ (k + 1)\<close>.\<close>

definition floor_log2 :: "rat \<Rightarrow> int" where
  "floor_log2 q =
     (if 1 \<le> q then int (bit_length \<lfloor>q\<rfloor>) - 1
      else - int (bit_length (\<lceil>1 / q\<rceil> - 1)))"

text \<open>For \<open>x \<ge> 0\<close>: the nearest integer, the even one of the two when \<open>x\<close> is halfway.\<close>

definition round_half_even :: "rat \<Rightarrow> int" where
  "round_half_even x =
     (let f = \<lfloor>x\<rfloor>; r = x - of_int f
      in if r < 1 / 2 then f else if 1 / 2 < r then f + 1 else if even f then f else f + 1)"

definition round_double :: "rat \<Rightarrow> pyfloat" where
  "round_double q =
     (if q = 0 then Fin 0
      else let a = \<bar>q\<bar>;
               e = max (floor_log2 a) (- 1022);
               ulp = pow2 (e - 52);
               v = of_int (round_half_even (a / ulp)) * ulp
           in if pow2 1024 \<le> v then (if q < 0 then NegInf else PosInf)
              else if v = 0 then (if q < 0 then NegZero else Fin 0)
              else Fin (if q < 0 then - v else v))"

text \<open>The exceptions of the program with Python's arithmetic and library:
  \<^verbatim>\<open>ZeroDivisionError\<close>, \<^verbatim>\<open>OverflowError\<close>, \<^verbatim>\<open>ValueError\<close>, an instance of
  \<^verbatim>\<open>requests.exceptions.RequestException\<close>, or an exception of any other class (each of
  the last two with its \<^verbatim>\<open>str\<close>).\<close>

datatype pyexn =
    PyZeroDivisionError
  | PyOverflowError
  | PyValueError
  | PyRequestException string
  | PyOtherException string

text \<open>\<^verbatim>\<open>float(n)\<close> as the division converts its \<^verbatim>\<open>int\<close> operand: the nearest double, and
  \<^verbatim>\<open>OverflowError\<close> when the int is too large for a float.\<close>

definition float_of_int :: "int \<Rightarrow> pyexn + pyfloat" where
  "float_of_int n =
     (case round_double (rat_of_int n) of
        PosInf \<Rightarrow> Inl PyOverflowError
      | NegInf \<Rightarrow> Inl PyOverflowError
      | b \<Rightarrow> Inr b)"

text \<open>
  \<^verbatim>\<open>a / n\<close> for a float \<open>a\<close> and an int \<open>n\<close>: the int is converted first, a zero divisor
  raises \<^verbatim>\<open>ZeroDivisionError\<close>, and the quotient of the two doubles is rounded once more.
  A NaN stays a NaN, an infinity stays one, and a zero result keeps the sign of the quotient.
\<close>

definition float_truediv :: "pyfloat \<Rightarrow> int \<Rightarrow> pyexn + pyfloat" where
  "float_truediv a n =
     (case float_of_int n of
        Inl e \<Rightarrow> Inl e
      | Inr (Fin b) \<Rightarrow>
          if b = 0 then Inl PyZeroDivisionError
          else (case a of
                  Fin t \<Rightarrow>
                    if t = 0 then Inr (if 0 < b then Fin 0 else NegZero)
                    else Inr (round_double (t / b))
                | NegZero \<Rightarrow> Inr (if 0 < b then NegZero else Fin 0)
                | PosInf \<Rightarrow> Inr (if 0 < b then PosInf else NegInf)
                | NegInf \<Rightarrow> Inr (if 0 < b then NegInf else PosInf)
                | NaN \<Rightarrow> Inr NaN)
      | Inr b \<Rightarrow> Inr NaN)"

text \<open>A double: zero, or a magnitude below \<open>2 ^ 1024\<close> that is a whole multiple of the
  spacing of the doubles at its size.\<close>

definition is_double :: "rat \<Rightarrow> bool" where
  "is_double q =
     (q = 0 \<or>
      (let a = \<bar>q\<bar>; ulp = pow2 (max (floor_log2 a) (- 1022) - 52)
       in rat_of_int \<lfloor>a / ulp\<rfloor> = a / ulp \<and> a < pow2 1024))"

subsection \<open>The library as the environment of a thread\<close>

text \<open>
  What the calls of a thread into the library do is given by its environment:
  \<^item> \<open>http_get url j\<close>: the result of the thread's j-th \<^verbatim>\<open>requests.get(url)\<close>;
  \<^item> \<open>stdout_put j txt\<close>: what formatting and printing \<open>txt\<close> after the j-th GET does:
    \<open>None\<close> when the text is written, \<open>Some x\<close> when \<^verbatim>\<open>print\<close> raises \<open>x\<close> (standard
    output closed, or unable to encode the text);
  \<^item> \<open>sleep_for secs\<close>: what \<^verbatim>\<open>time.sleep(secs)\<close> does: \<open>None\<close> when it returns after
    waiting, \<open>Some x\<close> when it raises \<open>x\<close> (a negative length, a NaN, a length beyond the
    range of the platform's clock).
\<close>

record world =
  http_get :: "string \<Rightarrow> nat \<Rightarrow> get_result"
  stdout_put :: "nat \<Rightarrow> string \<Rightarrow> pyexn option"
  sleep_for :: "pyfloat \<Rightarrow> pyexn option"

fun is_request_exception :: "pyexn \<Rightarrow> bool" where
  "is_request_exception (PyRequestException e) = True"
| "is_request_exception PyZeroDivisionError = False"
| "is_request_exception PyOverflowError = False"
| "is_request_exception PyValueError = False"
| "is_request_exception (PyOtherException e) = False"

text \<open>What a thread has done: the GETs it made, the texts it wrote, the lengths it slept.\<close>

datatype action = Requested string | Printed string | Slept pyfloat

record pythread =
  requests_made :: nat
  actions :: "action list"

definition new_pythread :: pythread where
  "new_pythread = \<lparr>requests_made = 0, actions = []\<rparr>"

type_synonym pyoutcome = "(pyexn + unit) option"

subsection \<open>The program with Python's floats and a library that can raise\<close>

text \<open>
  The three functions once more, now with the division of \<^verbatim>\<open>main\<close> in Python's float
  arithmetic and with \<^verbatim>\<open>print\<close> and \<^verbatim>\<open>time.sleep\<close> as the environment answers them.
  \<^verbatim>\<open>send_request\<close> is the \<^verbatim>\<open>try\<close> body (the GET, then the print of the success text)
  followed by the handler: an exception of the body that is a \<^verbatim>\<open>RequestException\<close> is
  caught and its failure text printed, every other exception leaves the function, and so
  does an exception of the handler's own print.
\<close>

definition print_py :: "world \<Rightarrow> nat \<Rightarrow> string \<Rightarrow> pythread \<Rightarrow> pyoutcome \<times> pythread" where
  "print_py w j txt s =
     (case stdout_put w j txt of
        None \<Rightarrow> (Some (Inr ()), s\<lparr>actions := actions s @ [Printed txt]\<rparr>)
      | Some x \<Rightarrow> (Some (Inl x), s))"

definition time_sleep_py :: "world \<Rightarrow> pyfloat \<Rightarrow> pythread \<Rightarrow> pyoutcome \<times> pythread" where
  "time_sleep_py w secs s =
     (case sleep_for w secs of
        None \<Rightarrow> (Some (Inr ()), s\<lparr>actions := actions s @ [Slept secs]\<rparr>)
      | Some x \<Rightarrow> (Some (Inl x), s))"

definition try_body :: "world \<Rightarrow> string \<Rightarrow> pythread \<Rightarrow> pyoutcome \<times> pythread" where
  "try_body w url s =
     (let j = requests_made s;
          s1 = s\<lparr>requests_made := Suc j, actions := actions s @ [Requested url]\<rparr>
      in case http_get w url j of
           Response status_code text \<Rightarrow> print_py w j (success_text status_code text) s1
         | RequestException e \<Rightarrow> (Some (Inl (PyRequestException e)), s1)
         | OtherException e \<Rightarrow> (Some (Inl (PyOtherException e)), s1)
         | Hangs \<Rightarrow> (None, s1))"

definition send_request_py :: "world \<Rightarrow> string \<Rightarrow> pythread \<Rightarrow> pyoutcome \<times> pythread" where
  "send_request_py w url s =
     (case try_body w url s of
        (Some (Inl (PyRequestException e)), s2) \<Rightarrow> print_py w (requests_made s) (failure_text e) s2
      | (r, s2) \<Rightarrow> (r, s2))"

fun worker_loop_py ::
  "world \<Rightarrow> string \<Rightarrow> pyfloat \<Rightarrow> nat \<Rightarrow> pythread \<Rightarrow> pyoutcome \<times> pythread" where
  "worker_loop_py w url interval 0 s = (Some (Inr ()), s)"
| "worker_loop_py w url interval (Suc n) s =
     (case send_request_py w url s of
        (Some (Inr _), s1) \<Rightarrow>
          (case time_sleep_py w interval s1 of
             (Some (Inr _), s2) \<Rightarrow> worker_loop_py w url interval n s2
           | (r, s2) \<Rightarrow> (r, s2))
      | (r, s1) \<Rightarrow> (r, s1))"

definition worker_py ::
  "world \<Rightarrow> string \<Rightarrow> pyfloat \<Rightarrow> int \<Rightarrow> pythread \<Rightarrow> pyoutcome \<times> pythread" where
  "worker_py w url interval num_requests s =
     worker_loop_py w url interval (nat num_requests) s"

definition thread_args_py ::
  "string \<Rightarrow> int \<Rightarrow> pyfloat \<Rightarrow> pyexn + (string \<times> pyfloat \<times> int) list" where
  "thread_args_py url total_requests total_time =
     (case float_truediv total_time total_requests of
        Inl e \<Rightarrow> Inl e
      | Inr interval \<Rightarrow> Inr (map (\<lambda>_. (url, interval, 1)) [0..<nat total_requests]))"

definition run_thread_py :: "world \<Rightarrow> string \<times> pyfloat \<times> int \<Rightarrow> pyoutcome \<times> pythread" where
  "run_thread_py w args = (case args of (url, interval, num_requests) \<Rightarrow>
     worker_py w url interval num_requests new_pythread)"

definition join_all_py :: "(pyoutcome \<times> pythread) list \<Rightarrow> pyoutcome" where
  "join_all_py threads =
     (if list_ex (\<lambda>t. fst t = None) threads then None else Some (Inr ()))"

definition main_py ::
  "(nat \<Rightarrow> world) \<Rightarrow> string \<Rightarrow> int \<Rightarrow> pyfloat \<Rightarrow> pyoutcome \<times> (pyoutcome \<times> pythread) list" where
  "main_py env url total_requests total_time =
     (case thread_args_py url total_requests total_time of
        Inl e \<Rightarrow> (Some (Inl e), [])
      | Inr argss \<Rightarrow>
          (let threads = map (\<lambda>(k, args). run_thread_py (env k) args) (enumerate 0 argss)
           in (join_all_py threads, threads)))"

text \<open>Reading the actions of a thread.\<close>

fun printed_texts :: "action list \<Rightarrow> string list" where
  "printed_texts [] = []"
| "printed_texts (Printed txt # as) = txt # printed_texts as"
| "printed_texts (Requested url # as) = printed_texts as"
| "printed_texts (Slept secs # as) = printed_texts as"

fun requested_urls :: "action list \<Rightarrow> string list" where
  "requested_urls [] = []"
| "requested_urls (Requested url # as) = url # requested_urls as"
| "requested_urls (Printed txt # as) = requested_urls as"
| "requested_urls (Slept secs # as) = requested_urls as"

fun slept_lengths :: "action list \<Rightarrow> pyfloat list" where
  "slept_lengths [] = []"
| "slept_lengths (Slept secs # as) = secs # slept_lengths as"
| "slept_lengths (Requested url # as) = slept_lengths as"
| "slept_lengths (Printed txt # as) = slept_lengths as"

text \<open>The lengths a thread slept before its first GET.\<close>

fun sleeps_before_request :: "action list \<Rightarrow> pyfloat list" where
  "sleeps_before_request [] = []"
| "sleeps_before_request (Requested url # as) = []"
| "sleeps_before_request (Slept secs # as) = secs # sleeps_before_request as"
| "sleeps_before_request (Printed txt # as) = sleeps_before_request as"

text \<open>The texts \<open>ls\<close> are all written when printed after the j-th GET.\<close>

definition prints_ok :: "world \<Rightarrow> nat \<Rightarrow> string list \<Rightarrow> bool" where
  "prints_ok w j ls = list_all (\<lambda>l. stdout_put w j l = None) ls"

subsection \<open>Concrete environments with a library that can raise\<close>

text \<open>A \<^verbatim>\<open>time.sleep\<close> that looks at the sign of a finite length only: it raises
  \<^verbatim>\<open>ValueError\<close> on a negative length and on a NaN, \<^verbatim>\<open>OverflowError\<close> on an infinity, and
  returns otherwise (also on the negative zero). CPython's \<^verbatim>\<open>time.sleep\<close> does this on
  lengths of a few seconds.\<close>

definition sign_checking_sleep :: "pyfloat \<Rightarrow> pyexn option" where
  "sign_checking_sleep secs =
     (case secs of
        Fin t \<Rightarrow> if t < 0 then Some PyValueError else None
      | NegZero \<Rightarrow> None
      | PosInf \<Rightarrow> Some PyOverflowError
      | NegInf \<Rightarrow> Some PyOverflowError
      | NaN \<Rightarrow> Some PyValueError)"

text \<open>A \<^verbatim>\<open>time.sleep\<close> whose clock takes lengths up to 9 \<^verbatim>\<open>*\<close> 10^9 seconds only and raises
  \<^verbatim>\<open>OverflowError\<close> beyond, as CPython's does on lengths of some 10^10 seconds.\<close>

definition bounded_sleep :: "pyfloat \<Rightarrow> pyexn option" where
  "bounded_sleep secs =
     (case secs of
        Fin t \<Rightarrow> if 9000000000 < \<bar>t\<bar> then Some PyOverflowError
                 else if t < 0 then Some PyValueError else None
      | NegZero \<Rightarrow> None
      | PosInf \<Rightarrow> Some PyOverflowError
      | NegInf \<Rightarrow> Some PyOverflowError
      | NaN \<Rightarrow> Some PyValueError)"

text \<open>The environment of a thread whose GETs are answered by \<open>net\<close>, whose standard
  output takes every text and whose \<^verbatim>\<open>time.sleep\<close> is \<open>sign_checking_sleep\<close>.\<close>

definition world_of :: "net \<Rightarrow> world" where
  "world_of net = \<lparr>http_get = net, stdout_put = (\<lambda>j txt. None), sleep_for = sign_checking_sleep\<rparr>"

text \<open>The same with a standard output that is closed: every \<^verbatim>\<open>print\<close> raises.\<close>

definition closed_stdout :: "net \<Rightarrow> world" where
  "closed_stdout net =
     \<lparr>http_get = net,
        stdout_put = (\<lambda>j txt. Some (PyOtherException ''I/O operation on closed file.'')),
        sleep_for = sign_checking_sleep\<rparr>"

text \<open>The same with a clock of bounded range.\<close>

definition bounded_clock :: "net \<Rightarrow> world" where
  "bounded_clock net = \<lparr>http_get = net, stdout_put = (\<lambda>j txt. None), sleep_for = bounded_sleep\<rparr>"

text \<open>Environments of a run: thread \<open>k\<close> has the GETs of the network given, a standard
  output that takes every text and a \<^verbatim>\<open>time.sleep\<close> that checks the sign.\<close>

definition ok_env :: "nat \<Rightarrow> world" where
  "ok_env k = world_of (always_ok k)"

definition down_env :: "nat \<Rightarrow> world" where
  "down_env k = world_of (always_down k)"

section \<open>Auxiliary facts\<close>

subsection \<open>The functions in closed form\<close>

lemma send_request_Response:
  "net url (calls s) = Response c t \<Longrightarrow>
   send_request net url s =
     (Some (Inr ()), \<lparr>calls = Suc (calls s), events = events s @ [Get url, Print (success_text c t)]\<rparr>)"
  by (simp add: send_request_def py_print_def)

lemma send_request_RequestException:
  "net url (calls s) = RequestException e \<Longrightarrow>
   send_request net url s =
     (Some (Inr ()), \<lparr>calls = Suc (calls s), events = events s @ [Get url, Print (failure_text e)]\<rparr>)"
  by (simp add: send_request_def py_print_def)

lemma send_request_OtherException:
  "net url (calls s) = OtherException e \<Longrightarrow>
   send_request net url s =
     (Some (Inl (Uncaught e)), \<lparr>calls = Suc (calls s), events = events s @ [Get url]\<rparr>)"
  by (simp add: send_request_def)

lemma send_request_Hangs:
  "net url (calls s) = Hangs \<Longrightarrow>
   send_request net url s = (None, \<lparr>calls = Suc (calls s), events = events s @ [Get url]\<rparr>)"
  by (simp add: send_request_def)

lemma send_request_answered:
  "answered (net url (calls s)) \<Longrightarrow>
   send_request net url s =
     (Some (Inr ()), \<lparr>calls = Suc (calls s),
        events = events s @ Get url # map Print (reported (net url (calls s)))\<rparr>)"
  by (cases "net url (calls s)")
     (simp_all add: send_request_Response send_request_RequestException)

lemma worker_once:
  "worker net url interval 1 new_thread = unit_run (net url 0) url interval"
  by (cases "net url 0")
     (simp_all add: worker_def new_thread_def unit_run_def time_sleep_def
        send_request_Response send_request_RequestException send_request_OtherException
        send_request_Hangs)

lemma main_threads:
  "total_requests \<noteq> 0 \<Longrightarrow>
   snd (main env url total_requests total_time) =
     map (\<lambda>k. unit_run (env k url 0) url (total_time / real_of_int total_requests))
       [0..<nat total_requests]"
  by (simp add: main_def thread_args_def Let_def enumerate_eq_zip zip_map2 zip_same_conv_map
      run_thread_def worker_once comp_def)

lemma main_outcome:
  "total_requests \<noteq> 0 \<Longrightarrow>
   fst (main env url total_requests total_time) =
     join_all (snd (main env url total_requests total_time))"
  by (simp add: main_def thread_args_def Let_def)




lemma digit_char_is_digit: "d < 10 \<Longrightarrow> is_digit (digit_char d)"
  by (simp add: is_digit_def digit_char_def)

lemma digit_val_digit_char: "d < 10 \<Longrightarrow> digit_val (digit_char d) = d"
  by (simp add: digit_val_def digit_char_def)

lemma str_nat_digits: "list_all is_digit (str_nat n)"
proof (induction n rule: str_nat.induct)
  case (1 n)
  show ?case
  proof (cases "n < 10")
    case True
    then show ?thesis by (subst str_nat.simps) (simp add: digit_char_is_digit)
  next
    case False
    with 1 show ?thesis by (subst str_nat.simps) (simp add: digit_char_is_digit)
  qed
qed

lemma str_nat_nonempty: "str_nat n \<noteq> []"
  by (subst str_nat.simps) simp

lemma nat_of_str_snoc: "nat_of_str (s @ [c]) = 10 * nat_of_str s + digit_val c"
  by (simp add: nat_of_str_def)

lemma nat_of_str_str_nat: "nat_of_str (str_nat n) = n"
proof (induction n rule: str_nat.induct)
  case (1 n)
  show ?case
  proof (cases "n < 10")
    case True
    then show ?thesis
      by (subst str_nat.simps) (simp add: nat_of_str_def digit_val_digit_char)
  next
    case False
    with 1 have "nat_of_str (str_nat (n div 10)) = n div 10" by simp
    with False show ?thesis
      by (subst str_nat.simps) (simp add: nat_of_str_snoc digit_val_digit_char)
  qed
qed

lemma is_digit_not_minus: "is_digit c \<Longrightarrow> c \<noteq> CHR ''-''"
  by (auto simp: is_digit_def)



lemma hd_str_nat_not_minus: "hd (str_nat n) \<noteq> CHR ''-''"
proof -
  have "hd (str_nat n) \<in> set (str_nat n)" by (simp add: str_nat_nonempty)
  then have "is_digit (hd (str_nat n))" using str_nat_digits [of n] by (simp add: list_all_iff)
  then show ?thesis by (rule is_digit_not_minus)
qed

lemma int_of_str_str_int: "int_of_str (str_int i) = i"
  by (simp add: int_of_str_def str_int_def nat_of_str_str_nat str_nat_nonempty hd_str_nat_not_minus)














subsection \<open>Reading events\<close>

lemma prints_append: "prints (xs @ ys) = prints xs @ prints ys"
  by (induction xs rule: prints.induct) auto




subsection \<open>The threads of a run\<close>





lemma unit_run_hangs: "(fst (unit_run r url interval) = None) = (r = Hangs)"
  by (cases r) (simp_all add: unit_run_def)

lemma reported_answered: "answered r \<Longrightarrow> length (reported r) = 1"
  by (cases r) simp_all

lemma main_length:
  "total_requests \<noteq> 0 \<Longrightarrow> length (snd (main env url total_requests total_time)) = nat total_requests"
  by (simp add: main_threads)

lemma main_nth:
  "total_requests \<noteq> 0 \<Longrightarrow> k < nat total_requests \<Longrightarrow>
   snd (main env url total_requests total_time) ! k =
     unit_run (env k url 0) url (total_time / real_of_int total_requests)"
  by (simp add: main_threads)




lemma join_all_Some: "(join_all ts \<noteq> None) = (\<forall>t \<in> set ts. fst t \<noteq> None)"
  by (auto simp: join_all_def list_ex_iff)

lemma join_all_cases: "join_all ts = (if \<forall>t \<in> set ts. fst t \<noteq> None then Some (Inr ()) else None)"
  by (auto simp: join_all_def list_ex_iff)


subsection \<open>The loop of \<^verbatim>\<open>worker\<close>\<close>

lemma upt_0_Suc: "[0..<Suc n] = 0 # map Suc [0..<n]"
  by (simp only: map_Suc_upt upt_conv_Cons [of 0 "Suc n"] zero_less_Suc)

subsection \<open>Rounding to a double\<close>

lemma pow2_pos: "0 < pow2 k"
  by (simp add: pow2_def)

lemma bit_length_unique:
  "2 ^ k \<le> n \<Longrightarrow> n < 2 ^ Suc k \<Longrightarrow> bit_length n = Suc k"
proof (induction k arbitrary: n)
  case 0
  then have n: "n = 1" by simp
  show ?case unfolding n by (simp add: bit_length.simps)
next
  case (Suc k)
  from Suc.prems have "2 ^ k \<le> n div 2" "n div 2 < 2 ^ Suc k" by simp_all
  then have "bit_length (n div 2) = Suc k" by (rule Suc.IH)
  moreover have "(0::int) < 2 ^ Suc k" by simp
  with Suc.prems(1) have "0 < n" by linarith
  ultimately show ?case by (subst bit_length.simps) simp
qed

lemma floor_log2_nonneg:
  assumes lo: "2 ^ j \<le> q" and hi: "q < 2 ^ Suc j"
  shows "floor_log2 q = int j"
proof -
  have "(1::rat) \<le> 2 ^ j" by simp
  with lo have q1: "1 \<le> q" by linarith
  have "rat_of_int (2 ^ j) \<le> q" using lo by simp
  then have a: "2 ^ j \<le> \<lfloor>q\<rfloor>" by (simp only: le_floor_iff)
  have "q < rat_of_int (2 ^ Suc j)" using hi by simp
  then have b: "\<lfloor>q\<rfloor> < 2 ^ Suc j" by (simp only: floor_less_iff)
  have "bit_length \<lfloor>q\<rfloor> = Suc j" using a b by (rule bit_length_unique)
  then show ?thesis using q1 by (simp add: floor_log2_def)
qed


lemma floor_log2_neg:
  assumes lo: "1 / 2 ^ Suc j \<le> q" and hi: "q < 1 / 2 ^ j"
  shows "floor_log2 q = - int (Suc j)"
proof -
  have "(0::rat) < 1 / 2 ^ Suc j" by simp
  with lo have qpos: "0 < q" by linarith
  have "(1::rat) \<le> 2 ^ j" by simp
  then have "(1::rat) / 2 ^ j \<le> 1" by (simp add: divide_le_eq)
  with hi have q1: "\<not> 1 \<le> q" by linarith
  have up: "1 / q \<le> 2 ^ Suc j"
  proof -
    from lo have "1 \<le> q * 2 ^ Suc j" by (simp add: divide_le_eq)
    then show ?thesis using qpos by (simp add: divide_le_eq mult.commute)
  qed
  have dn: "2 ^ j < 1 / q"
  proof -
    from hi have "q * 2 ^ j < 1" by (simp add: less_divide_eq)
    then show ?thesis using qpos by (simp add: less_divide_eq mult.commute)
  qed
  have "1 / q \<le> rat_of_int (2 ^ Suc j)" using up by simp
  then have c1: "\<lceil>1 / q\<rceil> \<le> 2 ^ Suc j" by (simp only: ceiling_le_iff)
  have "rat_of_int (2 ^ j) < 1 / q" using dn by simp
  then have c2: "2 ^ j < \<lceil>1 / q\<rceil>" by (simp only: less_ceiling_iff)
  from c2 have d1: "2 ^ j \<le> \<lceil>1 / q\<rceil> - 1" by linarith
  from c1 have d2: "\<lceil>1 / q\<rceil> - 1 < 2 ^ Suc j" by linarith
  have "bit_length (\<lceil>1 / q\<rceil> - 1) = Suc j"
    using d1 d2 by (rule bit_length_unique)
  then show ?thesis using q1 by (simp add: floor_log2_def)
qed

lemma round_half_even_int: "round_half_even (rat_of_int m) = m"
  by (simp add: round_half_even_def)


lemma round_double_unfold:
  assumes "q \<noteq> 0"
    and "v = rat_of_int (round_half_even (\<bar>q\<bar> / pow2 (max (floor_log2 \<bar>q\<bar>) (- 1022) - 52))) *
               pow2 (max (floor_log2 \<bar>q\<bar>) (- 1022) - 52)"
  shows "round_double q =
           (if pow2 1024 \<le> v then (if q < 0 then NegInf else PosInf)
            else if v = 0 then (if q < 0 then NegZero else Fin 0)
            else Fin (if q < 0 then - v else v))"
  using assms(1) unfolding round_double_def Let_def assms(2) by simp

lemma round_double_exact:
  assumes "is_double q"
  shows "round_double q = Fin q"
proof (cases "q = 0")
  case True
  then show ?thesis by (simp add: round_double_def)
next
  case False
  define ulp where "ulp = pow2 (max (floor_log2 \<bar>q\<bar>) (- 1022) - 52)"
  from assms False have whole: "rat_of_int \<lfloor>\<bar>q\<bar> / ulp\<rfloor> = \<bar>q\<bar> / ulp"
    and small: "\<bar>q\<bar> < pow2 1024"
    unfolding is_double_def ulp_def Let_def by blast+
  have up: "0 < ulp" unfolding ulp_def by (rule pow2_pos)
  have "round_half_even (\<bar>q\<bar> / ulp) = \<lfloor>\<bar>q\<bar> / ulp\<rfloor>"
    using round_half_even_int [of "\<lfloor>\<bar>q\<bar> / ulp\<rfloor>"] by (simp only: whole)
  then have "rat_of_int (round_half_even (\<bar>q\<bar> / ulp)) * ulp = \<bar>q\<bar> / ulp * ulp"
    by (simp only: whole)
  also have "\<dots> = \<bar>q\<bar>" using up by simp
  finally have v: "\<bar>q\<bar> = rat_of_int (round_half_even (\<bar>q\<bar> / ulp)) * ulp" by simp
  have "round_double q =
           (if pow2 1024 \<le> \<bar>q\<bar> then (if q < 0 then NegInf else PosInf)
            else if \<bar>q\<bar> = 0 then (if q < 0 then NegZero else Fin 0)
            else Fin (if q < 0 then - \<bar>q\<bar> else \<bar>q\<bar>))"
    using False v unfolding ulp_def by (rule round_double_unfold)
  also have "\<dots> = Fin (if q < 0 then - \<bar>q\<bar> else \<bar>q\<bar>)"
    using False small by simp
  also have "(if q < 0 then - \<bar>q\<bar> else \<bar>q\<bar>) = q" by simp
  finally show ?thesis .
qed

lemma float_of_int_exact: "is_double (rat_of_int n) \<Longrightarrow> float_of_int n = Inr (Fin (rat_of_int n))"
  by (simp add: float_of_int_def round_double_exact)

lemma float_truediv_exact:
  assumes "n \<noteq> 0" and "t \<noteq> 0" and "is_double (rat_of_int n)" and "is_double (t / rat_of_int n)"
  shows "float_truediv (Fin t) n = Inr (Fin (t / rat_of_int n))"
  using assms by (simp add: float_truediv_def float_of_int_exact round_double_exact)

lemma float_truediv_zero: "float_truediv a 0 = Inl PyZeroDivisionError"
  by (simp add: float_truediv_def float_of_int_def round_double_def)


lemma floor_log2_1: "floor_log2 1 = 0"
  using floor_log2_nonneg [of 0 1] by simp

lemma floor_log2_2: "floor_log2 2 = 1"
  using floor_log2_nonneg [of 1 2] by simp



lemma floor_log2_half: "floor_log2 (1 / 2) = - 1"
  using floor_log2_neg [of 0 "1 / 2"] by simp


lemma floor_log2_huge: "floor_log2 (2 ^ 1024) = 1024"
  using floor_log2_nonneg [of 1024 "2 ^ 1024"] by simp

lemma is_double_1: "is_double 1"
  by (simp add: is_double_def floor_log2_1 pow2_def)

lemma is_double_2: "is_double 2"
  by (simp add: is_double_def floor_log2_2 pow2_def)



lemma is_double_half: "is_double (1 / 2)"
  by (simp add: is_double_def floor_log2_half pow2_def)

lemma is_double_minus: "is_double (- q) = is_double q"
  by (simp add: is_double_def)



lemma float_of_int_huge: "float_of_int (2 ^ 1024) = Inl PyOverflowError"
proof -
  have r: "round_half_even (4503599627370496 :: rat) = 4503599627370496"
    using round_half_even_int [of 4503599627370496] by simp
  have q: "\<bar>rat_of_int (2 ^ 1024)\<bar> = 2 ^ 1024" by simp
  have l: "floor_log2 (2 ^ 1024) = 1024"
    by (rule floor_log2_huge)
  have d: "(2 ^ 1024 :: rat) / pow2 (1024 - 52) = 4503599627370496"
    by (simp add: pow2_def)
  have m: "rat_of_int 4503599627370496 * pow2 (1024 - 52) = pow2 1024"
    by (simp add: pow2_def)
  have v: "pow2 1024 =
        rat_of_int (round_half_even (\<bar>rat_of_int (2 ^ 1024)\<bar> /
           pow2 (max (floor_log2 \<bar>rat_of_int (2 ^ 1024)\<bar>) (- 1022) - 52))) *
          pow2 (max (floor_log2 \<bar>rat_of_int (2 ^ 1024)\<bar>) (- 1022) - 52)"
    unfolding q l by (simp only: max.absorb1 d r m)
  have "round_double (rat_of_int (2 ^ 1024)) = PosInf"
    using round_double_unfold [of "rat_of_int (2 ^ 1024)" "pow2 1024", OF _ v] by simp
  then show ?thesis by (simp only: float_of_int_def pyfloat.case)
qed

lemma float_truediv_huge: "float_truediv a (2 ^ 1024) = Inl PyOverflowError"
  by (simp only: float_truediv_def float_of_int_huge sum.case)


lemma float_truediv_1_2: "float_truediv (Fin 1) 2 = Inr (Fin (1 / 2))"
  using float_truediv_exact [of 2 1] by (simp add: is_double_2 is_double_half)

lemma float_truediv_m1_2: "float_truediv (Fin (- 1)) 2 = Inr (Fin (- (1 / 2)))"
  using float_truediv_exact [of 2 "- 1"] is_double_minus [of "1 / 2"]
  by (simp add: is_double_2 is_double_half)

lemma float_truediv_1_m2: "float_truediv (Fin 1) (- 2) = Inr (Fin (- (1 / 2)))"
  using float_truediv_exact [of "- 2" 1] is_double_minus [of "1 / 2"] is_double_minus [of 2]
  by (simp add: is_double_2 is_double_half)

lemma float_truediv_2_1: "float_truediv (Fin 2) 1 = Inr (Fin 2)"
  using float_truediv_exact [of 1 2] by (simp add: is_double_1 is_double_2)


subsection \<open>The functions with a library that can raise, in closed form\<close>

lemma pythread_literal:
  "(s::pythread)\<lparr>requests_made := a, actions := b\<rparr> = \<lparr>requests_made = a, actions = b\<rparr>"
  by (cases s) simp

lemma send_request_py_Response:
  "http_get w url (requests_made s) = Response c t \<Longrightarrow>
   stdout_put w (requests_made s) (success_text c t) = None \<Longrightarrow>
   send_request_py w url s =
     (Some (Inr ()),
      \<lparr>requests_made = Suc (requests_made s),
         actions = actions s @ [Requested url, Printed (success_text c t)]\<rparr>)"
  by (simp add: send_request_py_def try_body_def print_py_def)

lemma send_request_py_Response_raises:
  "http_get w url (requests_made s) = Response c t \<Longrightarrow>
   stdout_put w (requests_made s) (success_text c t) = Some x \<Longrightarrow>
   \<not> is_request_exception x \<Longrightarrow>
   send_request_py w url s =
     (Some (Inl x),
      \<lparr>requests_made = Suc (requests_made s), actions = actions s @ [Requested url]\<rparr>)"
  by (cases x) (simp_all add: send_request_py_def try_body_def print_py_def)

lemma send_request_py_Response_caught:
  "http_get w url (requests_made s) = Response c t \<Longrightarrow>
   stdout_put w (requests_made s) (success_text c t) = Some (PyRequestException e) \<Longrightarrow>
   send_request_py w url s =
     print_py w (requests_made s) (failure_text e)
       \<lparr>requests_made = Suc (requests_made s), actions = actions s @ [Requested url]\<rparr>"
  by (simp add: send_request_py_def try_body_def print_py_def pythread_literal)

lemma send_request_py_RequestException:
  "http_get w url (requests_made s) = RequestException e \<Longrightarrow>
   send_request_py w url s =
     print_py w (requests_made s) (failure_text e)
       \<lparr>requests_made = Suc (requests_made s), actions = actions s @ [Requested url]\<rparr>"
  by (simp add: send_request_py_def try_body_def pythread_literal)

lemma send_request_py_OtherException:
  "http_get w url (requests_made s) = OtherException e \<Longrightarrow>
   send_request_py w url s =
     (Some (Inl (PyOtherException e)),
      \<lparr>requests_made = Suc (requests_made s), actions = actions s @ [Requested url]\<rparr>)"
  by (simp add: send_request_py_def try_body_def)

lemma send_request_py_Hangs:
  "http_get w url (requests_made s) = Hangs \<Longrightarrow>
   send_request_py w url s =
     (None, \<lparr>requests_made = Suc (requests_made s), actions = actions s @ [Requested url]\<rparr>)"
  by (simp add: send_request_py_def try_body_def)

lemma send_request_py_answered:
  "answered (http_get w url (requests_made s)) \<Longrightarrow>
   prints_ok w (requests_made s) (reported (http_get w url (requests_made s))) \<Longrightarrow>
   send_request_py w url s =
     (Some (Inr ()),
      \<lparr>requests_made = Suc (requests_made s),
         actions = actions s @ Requested url #
                     map Printed (reported (http_get w url (requests_made s)))\<rparr>)"
  by (cases "http_get w url (requests_made s)")
     (simp_all add: send_request_py_Response send_request_py_RequestException prints_ok_def
        print_py_def)

lemma requested_urls_append: "requested_urls (xs @ ys) = requested_urls xs @ requested_urls ys"
  by (induction xs rule: requested_urls.induct) auto

lemma printed_texts_append: "printed_texts (xs @ ys) = printed_texts xs @ printed_texts ys"
  by (induction xs rule: printed_texts.induct) auto

lemma slept_lengths_append: "slept_lengths (xs @ ys) = slept_lengths xs @ slept_lengths ys"
  by (induction xs rule: slept_lengths.induct) auto

lemma requested_urls_Printed: "requested_urls (map Printed ls) = []"
  by (induction ls) auto

lemma printed_texts_Printed: "printed_texts (map Printed ls) = ls"
  by (induction ls) auto

lemma slept_lengths_Printed: "slept_lengths (map Printed ls) = []"
  by (induction ls) auto

lemma print_py_requests:
  "requested_urls (actions (snd (print_py w j l s))) = requested_urls (actions s) \<and>
   requests_made (snd (print_py w j l s)) = requests_made s"
  by (simp add: print_py_def requested_urls_append split: option.split)

lemma send_request_py_requests:
  "requested_urls (actions (snd (send_request_py w url s))) = requested_urls (actions s) @ [url]"
proof (cases "http_get w url (requests_made s)")
  case (Response c t)
  show ?thesis
  proof (cases "stdout_put w (requests_made s) (success_text c t)")
    case None
    with Response show ?thesis
      by (simp add: send_request_py_Response requested_urls_append)
  next
    case (Some x)
    show ?thesis
    proof (cases "is_request_exception x")
      case True
      then obtain e where "x = PyRequestException e" by (cases x) simp_all
      with Response Some show ?thesis
        by (simp add: send_request_py_Response_caught print_py_requests requested_urls_append)
    next
      case False
      with Response Some show ?thesis
        by (simp add: send_request_py_Response_raises requested_urls_append)
    qed
  qed
next
  case (RequestException e)
  then show ?thesis
    by (simp add: send_request_py_RequestException print_py_requests requested_urls_append)
next
  case (OtherException e)
  then show ?thesis by (simp add: send_request_py_OtherException requested_urls_append)
next
  case Hangs
  then show ?thesis by (simp add: send_request_py_Hangs requested_urls_append)
qed

lemma time_sleep_py_requests:
  "requested_urls (actions (snd (time_sleep_py w secs s))) = requested_urls (actions s)"
  by (simp add: time_sleep_py_def requested_urls_append split: option.split)

lemma worker_py_once_requests:
  "requested_urls (actions (snd (worker_py w url interval 1 new_pythread))) = [url]"
proof -
  obtain r s1 where sr: "send_request_py w url new_pythread = (r, s1)" by force
  have u: "requested_urls (actions s1) = [url]"
    using send_request_py_requests [of w url new_pythread] unfolding sr
    by (simp add: new_pythread_def)
  obtain r2 s2 where sl: "time_sleep_py w interval s1 = (r2, s2)" by force
  have u2: "requested_urls (actions s2) = [url]"
    using time_sleep_py_requests [of w interval s1] unfolding sl by (simp add: u)
  show ?thesis
    using u u2 by (simp add: worker_py_def sr sl split: option.split sum.split)
qed

lemma worker_py_once:
  assumes "answered (http_get w url 0)" and "prints_ok w 0 (reported (http_get w url 0))"
  shows "worker_py w url interval 1 new_pythread =
     (case sleep_for w interval of
        None \<Rightarrow>
          (Some (Inr ()),
           \<lparr>requests_made = 1,
              actions = Requested url # map Printed (reported (http_get w url 0)) @
                          [Slept interval]\<rparr>)
      | Some x \<Rightarrow>
          (Some (Inl x),
           \<lparr>requests_made = 1,
              actions = Requested url # map Printed (reported (http_get w url 0))\<rparr>))"
  using assms
  by (simp add: worker_py_def new_pythread_def send_request_py_answered time_sleep_py_def
      split: option.split)

lemma main_py_raises:
  "float_truediv total_time total_requests = Inl e \<Longrightarrow>
   main_py env url total_requests total_time = (Some (Inl e), [])"
  by (simp add: main_py_def thread_args_py_def)

lemma main_py_threads:
  "float_truediv total_time total_requests = Inr interval \<Longrightarrow>
   snd (main_py env url total_requests total_time) =
     map (\<lambda>k. worker_py (env k) url interval 1 new_pythread) [0..<nat total_requests]"
  by (simp add: main_py_def thread_args_py_def Let_def enumerate_eq_zip zip_map2
      zip_same_conv_map run_thread_py_def comp_def)

lemma main_py_outcome:
  "float_truediv total_time total_requests = Inr interval \<Longrightarrow>
   fst (main_py env url total_requests total_time) =
     join_all_py (snd (main_py env url total_requests total_time))"
  by (simp add: main_py_def thread_args_py_def Let_def)

lemma main_py_none:
  "float_truediv total_time total_requests = Inr interval \<Longrightarrow> total_requests \<le> 0 \<Longrightarrow>
   main_py env url total_requests total_time = (Some (Inr ()), [])"
  by (simp add: main_py_def thread_args_py_def Let_def join_all_py_def)

lemma worker_loop_py_cycles:
  "sleep_for w interval = None \<Longrightarrow>
   \<forall>j < n. answered (http_get w url (requests_made s + j)) \<and>
            prints_ok w (requests_made s + j) (reported (http_get w url (requests_made s + j))) \<Longrightarrow>
   worker_loop_py w url interval n s =
     (Some (Inr ()),
      \<lparr>requests_made = requests_made s + n,
         actions = actions s @
           concat (map (\<lambda>j. Requested url #
                              map Printed (reported (http_get w url (requests_made s + j))) @
                              [Slept interval]) [0..<n])\<rparr>)"
proof (induction n arbitrary: s)
  case 0
  show ?case by simp
next
  case (Suc n)
  let ?s1 = "\<lparr>requests_made = Suc (requests_made s),
               actions = actions s @ Requested url #
                           map Printed (reported (http_get w url (requests_made s)))\<rparr>"
  let ?s2 = "\<lparr>requests_made = Suc (requests_made s),
               actions = actions s @ Requested url #
                           map Printed (reported (http_get w url (requests_made s))) @
                           [Slept interval]\<rparr>"
  from Suc.prems(2) have a0: "answered (http_get w url (requests_made s))"
    and p0: "prints_ok w (requests_made s) (reported (http_get w url (requests_made s)))"
    by force+
  have sr: "send_request_py w url s = (Some (Inr ()), ?s1)"
    using a0 p0 by (rule send_request_py_answered)
  have sl: "time_sleep_py w interval ?s1 = (Some (Inr ()), ?s2)"
    using Suc.prems(1) by (simp add: time_sleep_py_def)
  have rest: "\<forall>j < n. answered (http_get w url (requests_made ?s2 + j)) \<and>
            prints_ok w (requests_made ?s2 + j)
              (reported (http_get w url (requests_made ?s2 + j)))"
    using Suc.prems(2) by auto
  have step: "worker_loop_py w url interval (Suc n) s = worker_loop_py w url interval n ?s2"
    by (simp add: sr sl)
  show ?case
    unfolding step Suc.IH [OF Suc.prems(1) rest] upt_0_Suc
    by (simp add: comp_def)
qed

subsection \<open>The concrete environments\<close>

lemma hello_text: "success_text 200 ''hello world'' = ''Status Code: 200, Content: hello world''"
  by code_simp

lemma reported_ok_env: "reported (http_get (ok_env k) url j) = [''Status Code: 200, Content: hello world'']"
  by (simp add: ok_env_def world_of_def always_ok_def hello_text)

lemma reported_down_env:
  "reported (http_get (down_env k) url j) = [''Request failed: connection refused'']"
  by (simp add: down_env_def world_of_def always_down_def failure_text_def)

lemma answered_ok_env: "answered (http_get (ok_env k) url j)"
  by (simp add: ok_env_def world_of_def always_ok_def)

lemma answered_down_env: "answered (http_get (down_env k) url j)"
  by (simp add: down_env_def world_of_def always_down_def)

lemma prints_ok_ok_env: "prints_ok (ok_env k) j ls"
  by (simp add: prints_ok_def ok_env_def world_of_def list_all_iff)

lemma prints_ok_down_env: "prints_ok (down_env k) j ls"
  by (simp add: prints_ok_def down_env_def world_of_def list_all_iff)

lemma sleep_ok_env: "sleep_for (ok_env k) = sign_checking_sleep"
  by (simp add: ok_env_def world_of_def)

lemma sleep_down_env: "sleep_for (down_env k) = sign_checking_sleep"
  by (simp add: down_env_def world_of_def)

section \<open>The claims\<close>

subsection \<open>The Request Issuer\<close>

text \<open>
  Claim C8. On a successful request the printed text is \<^verbatim>\<open>Status Code: \<close>, the status code
  in decimal (reading the numeral back gives the code), \<^verbatim>\<open>, Content: \<close> and a snippet: the
  first 50 characters of the body, the whole body when it has at most 50 characters, and
  never more than 50 characters.
\<close>

theorem success_line_snippet:
  assumes "net url (calls s) = Response status_code body"
  shows "fst (send_request net url s) = Some (Inr ()) \<and>
         prints (events (snd (send_request net url s))) =
           prints (events s) @
             [''Status Code: '' @ str_int status_code @ '', Content: '' @ take 50 body] \<and>
         int_of_str (str_int status_code) = status_code \<and>
         length (take 50 body) \<le> 50 \<and>
         (length body \<le> 50 \<longrightarrow> take 50 body = body) \<and>
         (50 \<le> length body \<longrightarrow> length (take 50 body) = 50) \<and>
         (\<forall>i < length (take 50 body). take 50 body ! i = body ! i)"
  using assms
  by (simp add: send_request_Response prints_append success_text_def int_of_str_str_int)

theorem success_line_snippet_witness:
  "fst (send_request (always_ok 0) ''u'' new_thread) = Some (Inr ()) \<and>
   prints (events (snd (send_request (always_ok 0) ''u'' new_thread))) =
     [''Status Code: 200, Content: hello world''] \<and>
   int_of_str ''200'' = 200 \<and>
   take 50 ''hello world'' = ''hello world''"
proof -
  have r: "always_ok 0 ''u'' (calls new_thread) = Response 200 ''hello world''"
    by (simp add: always_ok_def)
  have s: "str_int 200 = ''200''" by code_simp
  show ?thesis
    using success_line_snippet [of "always_ok 0" "''u''" new_thread 200 "''hello world''"] r
    by (simp add: s new_thread_def)
qed




subsection \<open>The Pacing Dispatcher\<close>




text \<open>
  Claim C5. \<^verbatim>\<open>main\<close> returns exactly when every unit it started has ended: the joins have
  no timeout and there is no deadline, whatever \<^verbatim>\<open>total_time\<close> is. A unit does not end
  exactly when its GET never returns, so one hung request keeps \<^verbatim>\<open>main\<close> from returning,
  and \<^verbatim>\<open>main\<close> returns normally when no request hangs.
\<close>

theorem main_returns_after_all_units:
  assumes "1 \<le> total_requests"
  shows "(fst (main env url total_requests total_time) \<noteq> None) =
           (\<forall>t \<in> set (snd (main env url total_requests total_time)). fst t \<noteq> None) \<and>
         (\<forall>k < nat total_requests.
            (fst (snd (main env url total_requests total_time) ! k) = None) =
              (env k url 0 = Hangs)) \<and>
         ((\<exists>k < nat total_requests. env k url 0 = Hangs) \<longrightarrow>
            fst (main env url total_requests total_time) = None) \<and>
         ((\<forall>k < nat total_requests. env k url 0 \<noteq> Hangs) \<longrightarrow>
            fst (main env url total_requests total_time) = Some (Inr ()))"
proof -
  define ts where "ts = snd (main env url total_requests total_time)"
  define n where "n = nat total_requests"
  from assms have nz: "total_requests \<noteq> 0" by simp
  have out: "fst (main env url total_requests total_time) = join_all ts"
    unfolding ts_def using nz by (rule main_outcome)
  have len: "length ts = n"
    unfolding ts_def n_def using nz by (rule main_length)
  have nth: "\<And>k. k < n \<Longrightarrow> (fst (ts ! k) = None) = (env k url 0 = Hangs)"
    unfolding ts_def n_def by (simp only: main_nth [OF nz] unit_run_hangs)
  have all: "(\<forall>t \<in> set ts. fst t \<noteq> None) = (\<forall>k < n. env k url 0 \<noteq> Hangs)"
    unfolding all_set_conv_all_nth len using nth by blast
  have a: "(join_all ts \<noteq> None) = (\<forall>t \<in> set ts. fst t \<noteq> None)"
    by (rule join_all_Some)
  have c: "(\<exists>k < n. env k url 0 = Hangs) \<longrightarrow> join_all ts = None"
    using a all by blast
  have d: "(\<forall>k < n. env k url 0 \<noteq> Hangs) \<longrightarrow> join_all ts = Some (Inr ())"
  proof
    assume "\<forall>k < n. env k url 0 \<noteq> Hangs"
    then have "\<forall>t \<in> set ts. fst t \<noteq> None" by (rule all [THEN iffD2])
    then show "join_all ts = Some (Inr ())" by (simp add: join_all_cases)
  qed
  have b: "\<forall>k < n. (fst (ts ! k) = None) = (env k url 0 = Hangs)"
    using nth by blast
  from a b c d show ?thesis
    unfolding out ts_def [symmetric] n_def [symmetric] by (intro conjI)
qed

theorem main_returns_after_all_units_witness:
  "fst (main mixed ''u'' 4 2) = None \<and> fst (main always_ok ''u'' 3 0) = Some (Inr ())"
proof -
  have a: "(1::int) \<le> 4" "(1::int) \<le> 3" by simp_all
  have h: "\<exists>k < nat 4. mixed k ''u'' 0 = Hangs"
  proof (intro exI conjI)
    show "(3::nat) < nat 4" by simp
    show "mixed 3 ''u'' 0 = Hangs" by (simp add: mixed_def)
  qed
  have n: "\<forall>k < nat 3. always_ok k ''u'' 0 \<noteq> Hangs" by (simp add: always_ok_def)
  note t1 = main_returns_after_all_units
    [where total_requests = 4 and env = mixed and url = "''u''" and total_time = 2, OF a(1)]
  note t2 = main_returns_after_all_units
    [where total_requests = 3 and env = always_ok and url = "''u''" and total_time = 0, OF a(2)]
  have p: "fst (main mixed ''u'' 4 2) = None"
    by (rule t1 [THEN conjunct2, THEN conjunct2, THEN conjunct1, THEN mp, OF h])
  have q: "fst (main always_ok ''u'' 3 0) = Some (Inr ())"
    by (rule t2 [THEN conjunct2, THEN conjunct2, THEN conjunct2, THEN mp, OF n])
  from p q show ?thesis by (rule conjI)
qed



subsection \<open>The claims about the interval, the delay and the exceptions\<close>

text \<open>
  These claims depend on Python's float arithmetic or on what \<^verbatim>\<open>time.sleep\<close> and
  \<^verbatim>\<open>print\<close> do when they do not succeed; they are stated on the second embedding.
\<close>

text \<open>
  Claim C10. \<^verbatim>\<open>send_request\<close> catches the \<^verbatim>\<open>RequestException\<close> class only. A
  \<^verbatim>\<open>RequestException\<close> of the GET becomes a failure line and a normal return. An exception
  of another class leaves \<^verbatim>\<open>send_request\<close> for its caller with nothing printed, whether
  the GET raises it or the formatting and printing of the outcome does (the third case);
  and an exception raised by the print of the handler itself leaves it too.
\<close>

theorem send_request_py_catches_only_RequestException:
  "(http_get w url (requests_made s) = RequestException e \<and>
    stdout_put w (requests_made s) (failure_text e) = None \<longrightarrow>
      send_request_py w url s =
        (Some (Inr ()),
         \<lparr>requests_made = Suc (requests_made s),
            actions = actions s @ [Requested url, Printed (failure_text e)]\<rparr>)) \<and>
   (http_get w url (requests_made s) = OtherException e \<longrightarrow>
      send_request_py w url s =
        (Some (Inl (PyOtherException e)),
         \<lparr>requests_made = Suc (requests_made s), actions = actions s @ [Requested url]\<rparr>)) \<and>
   (http_get w url (requests_made s) = Response status_code body \<and>
    stdout_put w (requests_made s) (success_text status_code body) = Some x \<and>
    \<not> is_request_exception x \<longrightarrow>
      send_request_py w url s =
        (Some (Inl x),
         \<lparr>requests_made = Suc (requests_made s), actions = actions s @ [Requested url]\<rparr>)) \<and>
   (http_get w url (requests_made s) = RequestException e \<and>
    stdout_put w (requests_made s) (failure_text e) = Some x \<longrightarrow>
      send_request_py w url s =
        (Some (Inl x),
         \<lparr>requests_made = Suc (requests_made s), actions = actions s @ [Requested url]\<rparr>))"
  by (simp add: send_request_py_RequestException send_request_py_OtherException
      send_request_py_Response_raises print_py_def)

theorem send_request_py_catches_only_RequestException_witness:
  "send_request_py (world_of (always_down 0)) ''u'' new_pythread =
     (Some (Inr ()),
      \<lparr>requests_made = 1,
         actions = [Requested ''u'', Printed ''Request failed: connection refused'']\<rparr>) \<and>
   send_request_py (world_of (raises_other 0)) ''u'' new_pythread =
     (Some (Inl (PyOtherException ''boom'')),
      \<lparr>requests_made = 1, actions = [Requested ''u'']\<rparr>) \<and>
   send_request_py (closed_stdout (always_ok 0)) ''u'' new_pythread =
     (Some (Inl (PyOtherException ''I/O operation on closed file.'')),
      \<lparr>requests_made = 1, actions = [Requested ''u'']\<rparr>) \<and>
   send_request_py (closed_stdout (always_down 0)) ''u'' new_pythread =
     (Some (Inl (PyOtherException ''I/O operation on closed file.'')),
      \<lparr>requests_made = 1, actions = [Requested ''u'']\<rparr>)"
proof -
  note t = send_request_py_catches_only_RequestException
  have c1: "send_request_py (world_of (always_down 0)) ''u'' new_pythread =
     (Some (Inr ()),
      \<lparr>requests_made = 1,
         actions = [Requested ''u'', Printed ''Request failed: connection refused'']\<rparr>)"
    using t [of "world_of (always_down 0)" "''u''" new_pythread "''connection refused''"]
    by (simp add: world_of_def always_down_def new_pythread_def failure_text_def)
  have c2: "send_request_py (world_of (raises_other 0)) ''u'' new_pythread =
     (Some (Inl (PyOtherException ''boom'')),
      \<lparr>requests_made = 1, actions = [Requested ''u'']\<rparr>)"
    using t [of "world_of (raises_other 0)" "''u''" new_pythread "''boom''"]
    by (simp add: world_of_def raises_other_def new_pythread_def)
  have c3: "send_request_py (closed_stdout (always_ok 0)) ''u'' new_pythread =
     (Some (Inl (PyOtherException ''I/O operation on closed file.'')),
      \<lparr>requests_made = 1, actions = [Requested ''u'']\<rparr>)"
    using t [of "closed_stdout (always_ok 0)" "''u''" new_pythread "''x''" 200 "''hello world''"
               "PyOtherException ''I/O operation on closed file.''"]
    by (simp add: closed_stdout_def always_ok_def new_pythread_def)
  have c4: "send_request_py (closed_stdout (always_down 0)) ''u'' new_pythread =
     (Some (Inl (PyOtherException ''I/O operation on closed file.'')),
      \<lparr>requests_made = 1, actions = [Requested ''u'']\<rparr>)"
    using t [of "closed_stdout (always_down 0)" "''u''" new_pythread "''connection refused''" 0
               "''x''" "PyOtherException ''I/O operation on closed file.''"]
    by (simp add: closed_stdout_def always_down_def new_pythread_def)
  from c1 c2 c3 c4 show ?thesis by (intro conjI)
qed

text \<open>
  Claim C2, as stated, fails: a unit makes its request first and sleeps afterwards. With
  \<^verbatim>\<open>total_requests = 1\<close> and \<^verbatim>\<open>total_time = 2.0\<close> the interval is 2.0, and the unit's
  GET is its first action: it has not slept before it.
\<close>

theorem unit_requests_first_counterexample:
  "float_truediv (Fin 2) 1 = Inr (Fin 2) \<and>
   snd (main_py ok_env ''u'' 1 (Fin 2)) =
     [(Some (Inr ()),
       \<lparr>requests_made = 1,
          actions = [Requested ''u'', Printed ''Status Code: 200, Content: hello world'',
                     Slept (Fin 2)]\<rparr>)] \<and>
   sleeps_before_request
     [Requested ''u'', Printed ''Status Code: 200, Content: hello world'', Slept (Fin 2)] = []"
  by (simp add: float_truediv_2_1 main_py_threads [OF float_truediv_2_1]
      worker_py_once [OF answered_ok_env prints_ok_ok_env] reported_ok_env sleep_ok_env
      sign_checking_sleep_def)

text \<open>
  Claim C2, amended. When the division gives an interval, every unit whose GET returns a
  response or raises a \<^verbatim>\<open>RequestException\<close>, and whose line is printed, performs exactly
  one request-then-delay cycle: it makes its one GET with the url at once (no sleep comes
  before it), prints the outcome, and only then calls \<^verbatim>\<open>time.sleep(interval)\<close>, once. When
  that call returns the unit has waited for the interval and ends normally; when it raises
  (an interval that is negative, or beyond the range of the clock) the unit ends in that
  exception and has not waited.
\<close>

theorem unit_request_then_sleep:
  assumes "1 \<le> total_requests" and "float_truediv total_time total_requests = Inr interval"
    and "k < nat total_requests" and "answered (http_get (env k) url 0)"
    and "prints_ok (env k) 0 (reported (http_get (env k) url 0))"
  shows "snd (main_py env url total_requests total_time) ! k =
           (case sleep_for (env k) interval of
              None \<Rightarrow>
                (Some (Inr ()),
                 \<lparr>requests_made = 1,
                    actions = Requested url # map Printed (reported (http_get (env k) url 0)) @
                                [Slept interval]\<rparr>)
            | Some x \<Rightarrow>
                (Some (Inl x),
                 \<lparr>requests_made = 1,
                    actions = Requested url #
                                map Printed (reported (http_get (env k) url 0))\<rparr>)) \<and>
         length (reported (http_get (env k) url 0)) = 1 \<and>
         requested_urls (actions (snd (snd (main_py env url total_requests total_time) ! k))) =
           [url] \<and>
         sleeps_before_request
           (actions (snd (snd (main_py env url total_requests total_time) ! k))) = [] \<and>
         (sleep_for (env k) interval = None \<longrightarrow>
            slept_lengths (actions (snd (snd (main_py env url total_requests total_time) ! k))) =
              [interval])"
proof -
  have t: "snd (main_py env url total_requests total_time) ! k =
             worker_py (env k) url interval 1 new_pythread"
    using assms(3) by (simp add: main_py_threads [OF assms(2)])
  show ?thesis
    unfolding t worker_py_once [OF assms(4,5)]
    by (simp add: reported_answered [OF assms(4)] requested_urls_append requested_urls_Printed
        slept_lengths_append slept_lengths_Printed split: option.split)
qed

theorem unit_request_then_sleep_witness:
  "snd (main_py down_env ''u'' 2 (Fin 1)) ! 1 =
     (Some (Inr ()),
      \<lparr>requests_made = 1,
         actions = [Requested ''u'', Printed ''Request failed: connection refused'',
                    Slept (Fin (1 / 2))]\<rparr>) \<and>
   sleeps_before_request (actions (snd (snd (main_py down_env ''u'' 2 (Fin 1)) ! 1))) = [] \<and>
   slept_lengths (actions (snd (snd (main_py down_env ''u'' 2 (Fin 1)) ! 1))) = [Fin (1 / 2)]"
proof -
  have a: "(1::int) \<le> 2" "(1::nat) < nat 2" by simp_all
  note t = unit_request_then_sleep [where env = down_env and url = "''u''" and k = 1,
    OF a(1) float_truediv_1_2 a(2) answered_down_env prints_ok_down_env]
  have c1: "snd (main_py down_env ''u'' 2 (Fin 1)) ! 1 =
     (Some (Inr ()),
      \<lparr>requests_made = 1,
         actions = [Requested ''u'', Printed ''Request failed: connection refused'',
                    Slept (Fin (1 / 2))]\<rparr>)"
    using t [THEN conjunct1]
    by (simp add: reported_down_env sleep_down_env sign_checking_sleep_def)
  have c2: "sleeps_before_request
              (actions (snd (snd (main_py down_env ''u'' 2 (Fin 1)) ! 1))) = []"
    by (rule t [THEN conjunct2, THEN conjunct2, THEN conjunct2, THEN conjunct1])
  have n: "sleep_for (down_env 1) (Fin (1 / 2)) = None"
    by (simp add: sleep_down_env sign_checking_sleep_def)
  note c3 = t [THEN conjunct2, THEN conjunct2, THEN conjunct2, THEN conjunct2, THEN mp, OF n]
  from c1 c2 c3 show ?thesis by (intro conjI)
qed

text \<open>
  Claim C3, as stated, fails: \<^verbatim>\<open>main\<close> validates nothing. With \<^verbatim>\<open>total_requests = -2\<close> it
  returns normally and reports no error; with \<^verbatim>\<open>total_time = -1.0\<close> and two requests it
  dispatches the units, each request is made and printed, each unit ends in the
  \<^verbatim>\<open>ValueError\<close> of its sleep and \<^verbatim>\<open>main\<close> returns normally; with
  \<^verbatim>\<open>total_requests = 0\<close> the division itself raises \<^verbatim>\<open>ZeroDivisionError\<close>.
\<close>

theorem no_validation_py_counterexample:
  "main_py ok_env ''u'' (- 2) (Fin 1) = (Some (Inr ()), []) \<and>
   fst (main_py ok_env ''u'' 2 (Fin (- 1))) = Some (Inr ()) \<and>
   snd (main_py ok_env ''u'' 2 (Fin (- 1))) ! 0 =
     (Some (Inl PyValueError),
      \<lparr>requests_made = 1,
         actions = [Requested ''u'', Printed ''Status Code: 200, Content: hello world'']\<rparr>) \<and>
   main_py ok_env ''u'' 0 (Fin 1) = (Some (Inl PyZeroDivisionError), [])"
proof -
  have c1: "main_py ok_env ''u'' (- 2) (Fin 1) = (Some (Inr ()), [])"
    by (rule main_py_none [OF float_truediv_1_m2]) simp
  have ts: "snd (main_py ok_env ''u'' 2 (Fin (- 1))) =
     [(Some (Inl PyValueError),
       \<lparr>requests_made = 1,
          actions = [Requested ''u'', Printed ''Status Code: 200, Content: hello world'']\<rparr>),
      (Some (Inl PyValueError),
       \<lparr>requests_made = 1,
          actions = [Requested ''u'', Printed ''Status Code: 200, Content: hello world'']\<rparr>)]"
    by (simp add: main_py_threads [OF float_truediv_m1_2] numeral_2_eq_2
        worker_py_once [OF answered_ok_env prints_ok_ok_env] reported_ok_env sleep_ok_env
        sign_checking_sleep_def)
  have c2: "fst (main_py ok_env ''u'' 2 (Fin (- 1))) = Some (Inr ())"
    unfolding main_py_outcome [OF float_truediv_m1_2] ts by (simp add: join_all_py_def)
  have c3: "snd (main_py ok_env ''u'' 2 (Fin (- 1))) ! 0 =
     (Some (Inl PyValueError),
      \<lparr>requests_made = 1,
         actions = [Requested ''u'', Printed ''Status Code: 200, Content: hello world'']\<rparr>)"
    unfolding ts by simp
  have c4: "main_py ok_env ''u'' 0 (Fin 1) = (Some (Inl PyZeroDivisionError), [])"
    by (rule main_py_raises [OF float_truediv_zero])
  from c1 c2 c3 c4 show ?thesis by (intro conjI)
qed

text \<open>
  Claim C3, amended. No configuration is validated. For \<^verbatim>\<open>total_requests = 0\<close> the
  division raises \<^verbatim>\<open>ZeroDivisionError\<close> before any unit is started, and so does every
  other exception of the division (\<^verbatim>\<open>OverflowError\<close> for a count too large for a float):
  no request is attempted. For \<^verbatim>\<open>total_requests < 0\<close>, when the division returns, no unit
  is started and \<^verbatim>\<open>main\<close> returns normally. For \<^verbatim>\<open>total_requests \<ge> 1\<close>, when the division
  returns, every unit is dispatched and makes its request, whatever \<^verbatim>\<open>total_time\<close> is; a
  unit whose GET is answered and printed, and whose \<^verbatim>\<open>time.sleep\<close> raises on the interval
  (as it does on a negative one), ends in that exception after its request.
\<close>

theorem invalid_configurations_py:
  "(total_requests = 0 \<longrightarrow>
      main_py env url total_requests total_time = (Some (Inl PyZeroDivisionError), [])) \<and>
   (float_truediv total_time total_requests = Inl e \<longrightarrow>
      main_py env url total_requests total_time = (Some (Inl e), [])) \<and>
   (total_requests < 0 \<and> float_truediv total_time total_requests = Inr interval \<longrightarrow>
      main_py env url total_requests total_time = (Some (Inr ()), [])) \<and>
   (1 \<le> total_requests \<and> float_truediv total_time total_requests = Inr interval \<longrightarrow>
      length (snd (main_py env url total_requests total_time)) = nat total_requests \<and>
      (\<forall>k < nat total_requests.
         requested_urls (actions (snd (snd (main_py env url total_requests total_time) ! k))) =
           [url] \<and>
         (answered (http_get (env k) url 0) \<and>
          prints_ok (env k) 0 (reported (http_get (env k) url 0)) \<and>
          sleep_for (env k) interval = Some x \<longrightarrow>
            snd (main_py env url total_requests total_time) ! k =
              (Some (Inl x),
               \<lparr>requests_made = 1,
                  actions = Requested url #
                              map Printed (reported (http_get (env k) url 0))\<rparr>))))"
proof -
  have z: "total_requests = 0 \<longrightarrow>
      main_py env url total_requests total_time = (Some (Inl PyZeroDivisionError), [])"
    by (simp add: main_py_raises [OF float_truediv_zero])
  have r: "float_truediv total_time total_requests = Inl e \<longrightarrow>
      main_py env url total_requests total_time = (Some (Inl e), [])"
    by (simp add: main_py_raises)
  have n: "total_requests < 0 \<and> float_truediv total_time total_requests = Inr interval \<longrightarrow>
      main_py env url total_requests total_time = (Some (Inr ()), [])"
    by (simp add: main_py_none)
  have p: "1 \<le> total_requests \<and> float_truediv total_time total_requests = Inr interval \<longrightarrow>
      length (snd (main_py env url total_requests total_time)) = nat total_requests \<and>
      (\<forall>k < nat total_requests.
         requested_urls (actions (snd (snd (main_py env url total_requests total_time) ! k))) =
           [url] \<and>
         (answered (http_get (env k) url 0) \<and>
          prints_ok (env k) 0 (reported (http_get (env k) url 0)) \<and>
          sleep_for (env k) interval = Some x \<longrightarrow>
            snd (main_py env url total_requests total_time) ! k =
              (Some (Inl x),
               \<lparr>requests_made = 1,
                  actions = Requested url #
                              map Printed (reported (http_get (env k) url 0))\<rparr>)))"
  proof (intro impI, elim conjE)
    assume d: "float_truediv total_time total_requests = Inr interval"
    show "length (snd (main_py env url total_requests total_time)) = nat total_requests \<and>
      (\<forall>k < nat total_requests.
         requested_urls (actions (snd (snd (main_py env url total_requests total_time) ! k))) =
           [url] \<and>
         (answered (http_get (env k) url 0) \<and>
          prints_ok (env k) 0 (reported (http_get (env k) url 0)) \<and>
          sleep_for (env k) interval = Some x \<longrightarrow>
            snd (main_py env url total_requests total_time) ! k =
              (Some (Inl x),
               \<lparr>requests_made = 1,
                  actions = Requested url #
                              map Printed (reported (http_get (env k) url 0))\<rparr>)))"
      by (simp add: main_py_threads [OF d] worker_py_once_requests worker_py_once)
  qed
  from z r n p show ?thesis by (intro conjI)
qed

theorem invalid_configurations_py_witness:
  "main_py ok_env ''u'' 0 (Fin 5) = (Some (Inl PyZeroDivisionError), []) \<and>
   main_py ok_env ''u'' (2 ^ 1024) (Fin 5) = (Some (Inl PyOverflowError), []) \<and>
   main_py ok_env ''u'' (- 2) (Fin 1) = (Some (Inr ()), []) \<and>
   length (snd (main_py ok_env ''u'' 2 (Fin (- 1)))) = nat 2 \<and>
   requested_urls (actions (snd (snd (main_py ok_env ''u'' 2 (Fin (- 1))) ! 1))) = [''u''] \<and>
   snd (main_py ok_env ''u'' 2 (Fin (- 1))) ! 1 =
     (Some (Inl PyValueError),
      \<lparr>requests_made = 1,
         actions = [Requested ''u'', Printed ''Status Code: 200, Content: hello world'']\<rparr>)"
proof -
  note t = invalid_configurations_py
  have c1: "main_py ok_env ''u'' 0 (Fin 5) = (Some (Inl PyZeroDivisionError), [])"
    by (rule t [where total_requests = 0, THEN conjunct1, THEN mp]) simp
  have c2: "main_py ok_env ''u'' (2 ^ 1024) (Fin 5) = (Some (Inl PyOverflowError), [])"
    by (rule t [THEN conjunct2, THEN conjunct1, THEN mp]) (rule float_truediv_huge)
  have c3: "main_py ok_env ''u'' (- 2) (Fin 1) = (Some (Inr ()), [])"
    by (rule t [where interval = "Fin (- (1 / 2))", THEN conjunct2, THEN conjunct2,
          THEN conjunct1, THEN mp])
       (simp add: float_truediv_1_m2)
  have h: "(1::int) \<le> 2 \<and> float_truediv (Fin (- 1)) 2 = Inr (Fin (- (1 / 2)))"
    by (simp add: float_truediv_m1_2)
  note p = t [where total_requests = 2 and total_time = "Fin (- 1)"
      and interval = "Fin (- (1 / 2))" and env = ok_env and url = "''u''" and x = PyValueError,
      THEN conjunct2, THEN conjunct2, THEN conjunct2, THEN mp, OF h]
  have k: "(1::nat) < nat 2" by simp
  note q = p [THEN conjunct2, THEN spec, THEN mp, OF k]
  have s: "answered (http_get (ok_env 1) ''u'' 0) \<and>
           prints_ok (ok_env 1) 0 (reported (http_get (ok_env 1) ''u'' 0)) \<and>
           sleep_for (ok_env 1) (Fin (- (1 / 2))) = Some PyValueError"
    by (simp add: answered_ok_env prints_ok_ok_env sleep_ok_env sign_checking_sleep_def)
  have c6: "snd (main_py ok_env ''u'' 2 (Fin (- 1))) ! 1 =
     (Some (Inl PyValueError),
      \<lparr>requests_made = 1,
         actions = [Requested ''u'', Printed ''Status Code: 200, Content: hello world'']\<rparr>)"
    using q [THEN conjunct2, THEN mp, OF s] by (simp add: reported_ok_env)
  from c1 c2 c3 p [THEN conjunct1] q [THEN conjunct1] c6 show ?thesis by (intro conjI)
qed




text \<open>
  Claim C9, as stated for every interval, fails: with the interval -1.0 the first sleep
  raises \<^verbatim>\<open>ValueError\<close>, so \<^verbatim>\<open>worker(url, -1.0, 2)\<close> makes one request, never sleeps and
  does not make its second request; with an interval of 10^10 seconds, beyond the range of
  the clock, the first sleep raises \<^verbatim>\<open>OverflowError\<close> in the same way. (An exception that
  \<^verbatim>\<open>send_request\<close> does not catch ends the loop too, before any sleep.)
\<close>

theorem worker_py_interval_counterexample:
  "worker_py (world_of (always_ok 0)) ''u'' (Fin (- 1)) 2 new_pythread =
     (Some (Inl PyValueError),
      \<lparr>requests_made = 1,
         actions = [Requested ''u'', Printed ''Status Code: 200, Content: hello world'']\<rparr>) \<and>
   worker_py (bounded_clock (always_ok 0)) ''u'' (Fin 10000000000) 2 new_pythread =
     (Some (Inl PyOverflowError),
      \<lparr>requests_made = 1,
         actions = [Requested ''u'', Printed ''Status Code: 200, Content: hello world'']\<rparr>) \<and>
   worker_py (world_of (raises_other 0)) ''u'' (Fin 1) 2 new_pythread =
     (Some (Inl (PyOtherException ''boom'')),
      \<lparr>requests_made = 1, actions = [Requested ''u'']\<rparr>)"
  by code_simp

text \<open>
  Claim C9, amended. For \<^verbatim>\<open>num_requests = n \<ge> 0\<close> and an interval on which
  \<^verbatim>\<open>time.sleep\<close> returns, when each of the n GETs returns a response or raises a
  \<^verbatim>\<open>RequestException\<close> and its line is printed, \<^verbatim>\<open>worker\<close> returns normally after exactly
  n cycles, each of them the GET, the print of its outcome and then the sleep for the
  interval: the sleep follows the request, and the last action of the thread is its sleep.
  For an interval on which \<^verbatim>\<open>time.sleep\<close> raises and \<^verbatim>\<open>n \<ge> 1\<close> the worker makes its first
  request, prints the outcome and ends in that exception.
\<close>

theorem worker_py_cycles:
  "(0 \<le> num_requests \<and> sleep_for w interval = None \<and>
    (\<forall>j < nat num_requests.
       answered (http_get w url (requests_made s + j)) \<and>
       prints_ok w (requests_made s + j) (reported (http_get w url (requests_made s + j)))) \<longrightarrow>
      worker_py w url interval num_requests s =
        (Some (Inr ()),
         \<lparr>requests_made = requests_made s + nat num_requests,
            actions = actions s @
              concat (map (\<lambda>j. Requested url #
                                 map Printed (reported (http_get w url (requests_made s + j))) @
                                 [Slept interval]) [0..<nat num_requests])\<rparr>) \<and>
      (\<forall>j < nat num_requests. length (reported (http_get w url (requests_made s + j))) = 1)) \<and>
   (1 \<le> num_requests \<and> sleep_for w interval = Some x \<and>
    answered (http_get w url (requests_made s)) \<and>
    prints_ok w (requests_made s) (reported (http_get w url (requests_made s))) \<longrightarrow>
      worker_py w url interval num_requests s =
        (Some (Inl x),
         \<lparr>requests_made = Suc (requests_made s),
            actions = actions s @ Requested url #
                        map Printed (reported (http_get w url (requests_made s)))\<rparr>))"
proof -
  have pos: "0 \<le> num_requests \<and> sleep_for w interval = None \<and>
    (\<forall>j < nat num_requests.
       answered (http_get w url (requests_made s + j)) \<and>
       prints_ok w (requests_made s + j) (reported (http_get w url (requests_made s + j)))) \<longrightarrow>
      worker_py w url interval num_requests s =
        (Some (Inr ()),
         \<lparr>requests_made = requests_made s + nat num_requests,
            actions = actions s @
              concat (map (\<lambda>j. Requested url #
                                 map Printed (reported (http_get w url (requests_made s + j))) @
                                 [Slept interval]) [0..<nat num_requests])\<rparr>) \<and>
      (\<forall>j < nat num_requests. length (reported (http_get w url (requests_made s + j))) = 1)"
    by (simp add: worker_py_def worker_loop_py_cycles reported_answered)
  have neg: "1 \<le> num_requests \<and> sleep_for w interval = Some x \<and>
    answered (http_get w url (requests_made s)) \<and>
    prints_ok w (requests_made s) (reported (http_get w url (requests_made s))) \<longrightarrow>
      worker_py w url interval num_requests s =
        (Some (Inl x),
         \<lparr>requests_made = Suc (requests_made s),
            actions = actions s @ Requested url #
                        map Printed (reported (http_get w url (requests_made s)))\<rparr>)"
  proof (intro impI, elim conjE)
    assume n: "1 \<le> num_requests" and i: "sleep_for w interval = Some x"
      and a: "answered (http_get w url (requests_made s))"
      and p: "prints_ok w (requests_made s) (reported (http_get w url (requests_made s)))"
    from n have "0 < nat num_requests" by simp
    then obtain m where m: "nat num_requests = Suc m"
      by (cases "nat num_requests") simp_all
    show "worker_py w url interval num_requests s =
        (Some (Inl x),
         \<lparr>requests_made = Suc (requests_made s),
            actions = actions s @ Requested url #
                        map Printed (reported (http_get w url (requests_made s)))\<rparr>)"
      using i a p by (simp add: worker_py_def m send_request_py_answered time_sleep_py_def)
  qed
  from pos neg show ?thesis by (rule conjI)
qed

theorem worker_py_cycles_witness:
  "worker_py (ok_env 0) ''u'' (Fin (1 / 2)) 2 new_pythread =
     (Some (Inr ()),
      \<lparr>requests_made = 2,
         actions = [Requested ''u'', Printed ''Status Code: 200, Content: hello world'',
                    Slept (Fin (1 / 2)),
                    Requested ''u'', Printed ''Status Code: 200, Content: hello world'',
                    Slept (Fin (1 / 2))]\<rparr>) \<and>
   worker_py (down_env 0) ''u'' (Fin (- 1)) 3 new_pythread =
     (Some (Inl PyValueError),
      \<lparr>requests_made = 1,
         actions = [Requested ''u'', Printed ''Request failed: connection refused'']\<rparr>)"
proof -
  have u: "[0..<nat 2] = [0, 1]" by code_simp
  have h1: "(0::int) \<le> 2 \<and> sleep_for (ok_env 0) (Fin (1 / 2)) = None \<and>
            (\<forall>j < nat 2.
               answered (http_get (ok_env 0) ''u'' (requests_made new_pythread + j)) \<and>
               prints_ok (ok_env 0) (requests_made new_pythread + j)
                 (reported (http_get (ok_env 0) ''u'' (requests_made new_pythread + j))))"
    by (simp add: answered_ok_env prints_ok_ok_env sleep_ok_env sign_checking_sleep_def)
  have h2: "(1::int) \<le> 3 \<and> sleep_for (down_env 0) (Fin (- 1)) = Some PyValueError \<and>
            answered (http_get (down_env 0) ''u'' (requests_made new_pythread)) \<and>
            prints_ok (down_env 0) (requests_made new_pythread)
              (reported (http_get (down_env 0) ''u'' (requests_made new_pythread)))"
    by (simp add: answered_down_env prints_ok_down_env sleep_down_env sign_checking_sleep_def)
  note t1 = worker_py_cycles [where interval = "Fin (1 / 2)" and num_requests = 2
    and w = "ok_env 0" and url = "''u''" and s = new_pythread,
    THEN conjunct1, THEN mp, OF h1, THEN conjunct1]
  note t2 = worker_py_cycles [where interval = "Fin (- 1)" and num_requests = 3
    and w = "down_env 0" and url = "''u''" and s = new_pythread and x = PyValueError,
    THEN conjunct2, THEN mp, OF h2]
  have c1: "worker_py (ok_env 0) ''u'' (Fin (1 / 2)) 2 new_pythread =
     (Some (Inr ()),
      \<lparr>requests_made = 2,
         actions = [Requested ''u'', Printed ''Status Code: 200, Content: hello world'',
                    Slept (Fin (1 / 2)),
                    Requested ''u'', Printed ''Status Code: 200, Content: hello world'',
                    Slept (Fin (1 / 2))]\<rparr>)"
    unfolding t1 u by (simp add: reported_ok_env new_pythread_def)
  have c2: "worker_py (down_env 0) ''u'' (Fin (- 1)) 3 new_pythread =
     (Some (Inl PyValueError),
      \<lparr>requests_made = 1,
         actions = [Requested ''u'', Printed ''Request failed: connection refused'']\<rparr>)"
    unfolding t2 by (simp add: reported_down_env new_pythread_def)
  from c1 c2 show ?thesis by (rule conjI)
qed

end
